theory Spec2Isabelle
  imports Complex_Main "HOL-Library.AList"
begin

section \<open>Python values used by the client\<close>

text \<open>
  A Python \<open>str\<close> is represented by the bytes of its UTF-8 encoding, so \<open>s.encode('utf-8')\<close>
  is the identity on the representation. The only string operations of the source are
  concatenation, \<open>split('/')\<close>, the slice \<open>[0:6]\<close> compared with an ASCII literal and
  membership in a set of ASCII literals; on well-formed UTF-8 they give the same answer on
  bytes as on code points.
\<close>

definition encode_utf8 :: "string \<Rightarrow> string" where
  "encode_utf8 s = s"

datatype pyfloat = Finite rat | PosInf | NegInf | NaN

datatype pyval = PNone | PStr string | PBytes string | PInt int | PFloat pyfloat

type_synonym pydict = "(string \<times> pyval) list"

text \<open>\<open>str(s)\<close> on a string returns it.\<close>

definition py_str :: "string \<Rightarrow> string" where
  [simp]: "py_str s = s"

text \<open>\<open>int(x)\<close> on a finite float truncates towards zero.\<close>

definition py_int_of_float :: "rat \<Rightarrow> int" where
  "py_int_of_float x = (if 0 \<le> x then \<lfloor>x\<rfloor> else \<lceil>x\<rceil>)"

text \<open>\<open>str(n)\<close> on an integer: its decimal digits, with a minus sign when negative.\<close>

definition digit_char :: "nat \<Rightarrow> char" where
  "digit_char d = ''0123456789'' ! d"

function str_nat :: "nat \<Rightarrow> string" where
  "str_nat n = (if n < 10 then [digit_char n] else str_nat (n div 10) @ [digit_char (n mod 10)])"
  by pat_completeness auto
termination
  by (relation "measure (\<lambda>n. n)") auto

declare str_nat.simps [simp del]

definition py_str_int :: "int \<Rightarrow> string" where
  "py_str_int i = (if i < 0 then CHR ''-'' # str_nat (nat (- i)) else str_nat (nat i))"

text \<open>\<open>s.split(sep)\<close> for a one-character separator; the result is never empty.\<close>

fun py_split :: "char \<Rightarrow> string \<Rightarrow> string list" where
  "py_split sep [] = [[]]"
| "py_split sep (c # cs) =
     (if c = sep then [] # py_split sep cs
      else (case py_split sep cs of
              [] \<Rightarrow> [[c]]
            | seg # segs \<Rightarrow> (c # seg) # segs))"

section \<open>The module's constants\<close>

definition private_set :: "string list" where
  "private_set =
     [''getbalances'', ''getbalance'', ''getdeposits'', ''getwithdrawals'',
      ''getnewdepositaddress'', ''getdepositaddress'', ''myopenorders'',
      ''myopenorders_market'', ''cancelorder'', ''withdraw'', ''trade'', ''tradehistory'',
      ''getdeposithistory'', ''getwithdrawalhistory'', ''walletstatus'']"

section \<open>External collaborators\<close>

datatype exn =
    UnboundLocalError | RequestException string | TypeError | ValueError | OverflowError

text \<open>
  The standard library's \<open>hmac.new(key, msg, hashlib.sha512).digest()\<close> and
  \<open>base64.b64encode\<close> are not code of the repository: they are parameters of the model. So
  are the parts of the built-in conversions that read or print text and round: \<open>repr\<close> of a
  float and of a bytes object, the parsers of \<open>int\<close> and \<open>float\<close> for text (which raise on text
  they cannot read), and the rounding of an integer to a float (which raises on one too
  large).
\<close>

record stdlib =
  hmac_sha512 :: "string \<Rightarrow> string \<Rightarrow> string"
  b64encode :: "string \<Rightarrow> string"
  float_repr :: "pyfloat \<Rightarrow> string"
  bytes_repr :: "string \<Rightarrow> string"
  int_of_text :: "string \<Rightarrow> exn + int"
  float_of_text :: "string \<Rightarrow> exn + pyfloat"
  float_of_int :: "int \<Rightarrow> exn + pyfloat"

text \<open>
  The built-in conversions on the values a caller may pass: \<open>str\<close> never raises, \<open>int\<close>
  truncates a finite float and raises on \<open>None\<close>, on a float that is not finite and on text
  that is no integer, \<open>float\<close> raises on \<open>None\<close> and on text that is no number.
\<close>

fun py_str_of :: "stdlib \<Rightarrow> pyval \<Rightarrow> string" where
  "py_str_of L PNone = ''None''"
| "py_str_of L (PStr s) = s"
| "py_str_of L (PBytes b) = bytes_repr L b"
| "py_str_of L (PInt i) = py_str_int i"
| "py_str_of L (PFloat x) = float_repr L x"

fun py_int :: "stdlib \<Rightarrow> pyval \<Rightarrow> exn + int" where
  "py_int L PNone = Inl TypeError"
| "py_int L (PStr s) = int_of_text L s"
| "py_int L (PBytes b) = int_of_text L b"
| "py_int L (PInt i) = Inr i"
| "py_int L (PFloat (Finite x)) = Inr (py_int_of_float x)"
| "py_int L (PFloat NaN) = Inl ValueError"
| "py_int L (PFloat PosInf) = Inl OverflowError"
| "py_int L (PFloat NegInf) = Inl OverflowError"

fun py_float :: "stdlib \<Rightarrow> pyval \<Rightarrow> exn + pyfloat" where
  "py_float L PNone = Inl TypeError"
| "py_float L (PStr s) = float_of_text L s"
| "py_float L (PBytes b) = float_of_text L b"
| "py_float L (PInt i) = float_of_int L i"
| "py_float L (PFloat x) = Inr x"

datatype http_request =
    Get string nat
  | Post string pydict "(string \<times> string) list" nat

text \<open>
  What one call observes of the outside: the reading of \<open>time.time()\<close> and the transport, which
  answers a request with the response's \<open>text\<close> or raises.
\<close>

record env =
  time_time :: rat
  http :: "http_request \<Rightarrow> exn + string"

section \<open>The client object and the store\<close>

record client =
  api_key :: string
  api_secret :: string

text \<open>\<open>NovaExchange.__init__\<close>: the arguments are strings or \<open>None\<close>.\<close>

definition init :: "string option \<Rightarrow> string option \<Rightarrow> client" where
  "init key secret =
     \<lparr> api_key = (case key of Some k \<Rightarrow> py_str k | None \<Rightarrow> ''''),
       api_secret = (case secret of Some s \<Rightarrow> py_str s | None \<Rightarrow> '''') \<rparr>"

text \<open>
  The state a method runs in: the client object, the dict objects (a reference is an index
  into \<open>heap\<close>) and the requests handed to the transport so far.
\<close>

record world =
  self :: client
  heap :: "pydict list"
  sent :: "http_request list"

definition alloc :: "pydict \<Rightarrow> world \<Rightarrow> nat \<times> world" where
  "alloc d w = (length (heap w), w\<lparr>heap := heap w @ [d]\<rparr>)"

definition setitem :: "nat \<Rightarrow> string \<Rightarrow> pyval \<Rightarrow> world \<Rightarrow> world" where
  "setitem a k v w = w\<lparr>heap := (heap w)[a := AList.update k v (heap w ! a)]\<rparr>"

definition request :: "env \<Rightarrow> http_request \<Rightarrow> world \<Rightarrow> (exn + string) \<times> world" where
  "request e r w = (http e r, w\<lparr>sent := sent w @ [r]\<rparr>)"

text \<open>
  The statement \<open>if not req: req = {}\<close>: \<open>not req\<close> holds for \<open>None\<close> and for an empty dict,
  and then \<open>req\<close> is bound to a new dict object. The result is the reference \<open>req\<close> holds
  afterwards.
\<close>

definition default_req :: "nat option \<Rightarrow> world \<Rightarrow> nat \<times> world" where
  "default_req req w =
     (case req of
        None \<Rightarrow> alloc [] w
      | Some a \<Rightarrow> if heap w ! a = [] then alloc [] w else (a, w))"

section \<open>The dispatcher\<close>

definition api_query ::
  "stdlib \<Rightarrow> env \<Rightarrow> string \<Rightarrow> nat option \<Rightarrow> world \<Rightarrow> (exn + string) \<times> world" where
  "api_query L e method req0 w0 =
     (let url = ''https://novaexchange.com/remote/v2/'';
          (req, w) = default_req req0 w0
      in if take 6 (hd (py_split CHR ''/'' method)) = ''market'' then
           request e (Get (url @ method @ ''/'') 60) w
         else if hd (py_split CHR ''/'' method) \<in> set private_set then
           (let url = url @ ''private/'' @ method @ ''/'' @ ''?nonce=''
                        @ py_str_int (py_int_of_float (time_time e));
                w = setitem req ''apikey'' (PStr (api_key (self w))) w;
                w = setitem req ''signature''
                      (PBytes (b64encode L
                         (hmac_sha512 L (encode_utf8 (api_secret (self w))) (encode_utf8 url)))) w;
                headers = [(''content-type'', ''application/x-www-form-urlencoded'')]
            in request e (Post url (heap w ! req) headers 60) w)
         else (Inl UnboundLocalError, w))"

section \<open>The endpoint wrappers\<close>

text \<open>
  A wrapper returns the response text of the dispatcher or, on an argument it rejects, a tuple.
  Its arguments are Python values, which the wrapper converts with \<open>str\<close>, \<open>int\<close> and \<open>float\<close>
  as the source does; a conversion that raises ends the call before anything is sent.
\<close>

datatype retval = Text string | Tuple "pyval list"

definition returned :: "(exn + string) \<times> world \<Rightarrow> (exn + retval) \<times> world" where
  "returned r = (case fst r of Inl x \<Rightarrow> Inl x | Inr t \<Rightarrow> Inr (Text t), snd r)"

definition markets :: "stdlib \<Rightarrow> env \<Rightarrow> world \<Rightarrow> (exn + retval) \<times> world" where
  "markets L e w = returned (api_query L e ''markets'' None w)"

definition market_info :: "stdlib \<Rightarrow> env \<Rightarrow> pyval \<Rightarrow> world \<Rightarrow> (exn + retval) \<times> world" where
  "market_info L e market w =
     returned (api_query L e (''market/info/'' @ py_str_of L market) None w)"

definition market_order_history ::
  "stdlib \<Rightarrow> env \<Rightarrow> pyval \<Rightarrow> world \<Rightarrow> (exn + retval) \<times> world" where
  "market_order_history L e market w =
     returned (api_query L e (''market/orderhistory/'' @ py_str_of L market) None w)"

definition market_open_orders ::
  "stdlib \<Rightarrow> env \<Rightarrow> pyval \<Rightarrow> pyval \<Rightarrow> world \<Rightarrow> (exn + retval) \<times> world" where
  "market_open_orders L e market ordertype w =
     (let order_options = [''BUY'', ''SELL'', ''BOTH'']
      in if py_str_of L ordertype \<in> set order_options then
           returned (api_query L e
             (''market/openorders/'' @ py_str_of L market @ ''/'' @ py_str_of L ordertype)
             None w)
         else
           (Inr (Tuple [ordertype,
                        PStr ''is not a valid ordertype. please use BUY, SELL, or BOTH.'']), w))"

definition get_balances :: "stdlib \<Rightarrow> env \<Rightarrow> world \<Rightarrow> (exn + retval) \<times> world" where
  "get_balances L e w = returned (api_query L e ''getbalances'' None w)"

definition get_balance :: "stdlib \<Rightarrow> env \<Rightarrow> pyval \<Rightarrow> world \<Rightarrow> (exn + retval) \<times> world" where
  "get_balance L e currency w =
     returned (api_query L e (''getbalance/'' @ py_str_of L currency) None w)"

definition get_deposits :: "stdlib \<Rightarrow> env \<Rightarrow> world \<Rightarrow> (exn + retval) \<times> world" where
  "get_deposits L e w = returned (api_query L e ''getdeposits'' None w)"

definition get_withdrawals :: "stdlib \<Rightarrow> env \<Rightarrow> world \<Rightarrow> (exn + retval) \<times> world" where
  "get_withdrawals L e w = returned (api_query L e ''getwithdrawals'' None w)"

definition get_new_deposit_address ::
  "stdlib \<Rightarrow> env \<Rightarrow> pyval \<Rightarrow> world \<Rightarrow> (exn + retval) \<times> world" where
  "get_new_deposit_address L e currency w =
     returned (api_query L e (''getnewdepositaddress/'' @ py_str_of L currency) None w)"

definition get_deposit_address ::
  "stdlib \<Rightarrow> env \<Rightarrow> pyval \<Rightarrow> world \<Rightarrow> (exn + retval) \<times> world" where
  "get_deposit_address L e currency w =
     returned (api_query L e (''getdepositaddress/'' @ py_str_of L currency) None w)"

definition my_open_orders :: "stdlib \<Rightarrow> env \<Rightarrow> world \<Rightarrow> (exn + retval) \<times> world" where
  "my_open_orders L e w = returned (api_query L e ''myopenorders'' None w)"

definition my_open_orders_market ::
  "stdlib \<Rightarrow> env \<Rightarrow> pyval \<Rightarrow> world \<Rightarrow> (exn + retval) \<times> world" where
  "my_open_orders_market L e market w =
     returned (api_query L e (''myopenorders_market/'' @ py_str_of L market) None w)"

definition cancel_order :: "stdlib \<Rightarrow> env \<Rightarrow> pyval \<Rightarrow> world \<Rightarrow> (exn + retval) \<times> world" where
  "cancel_order L e order_id w =
     returned (api_query L e (''cancelorder/'' @ py_str_of L order_id) None w)"

definition withdraw ::
  "stdlib \<Rightarrow> env \<Rightarrow> pyval \<Rightarrow> pyval \<Rightarrow> pyval \<Rightarrow> world \<Rightarrow> (exn + retval) \<times> world" where
  "withdraw L e currency amount address w =
     (case py_float L amount of
        Inl x \<Rightarrow> (Inl x, w)
      | Inr amount' \<Rightarrow>
          (let (req, w) = alloc [(''currency'', PStr (py_str_of L currency)),
                                 (''amount'', PFloat amount'),
                                 (''address'', PStr (py_str_of L address))] w
           in returned (api_query L e (''withdraw/'' @ py_str_of L currency) (Some req) w)))"

definition trade ::
  "stdlib \<Rightarrow> env \<Rightarrow> pyval \<Rightarrow> pyval \<Rightarrow> pyval \<Rightarrow> pyval \<Rightarrow> pyval \<Rightarrow> world
     \<Rightarrow> (exn + retval) \<times> world" where
  "trade L e market tradetype0 tradeamount0 tradeprice0 tradebase0 w =
     (let tradetype = py_str_of L tradetype0
      in case py_int L tradebase0 of
           Inl x \<Rightarrow> (Inl x, w)
         | Inr tradebase \<Rightarrow>
       (case py_float L tradeamount0 of
           Inl x \<Rightarrow> (Inl x, w)
         | Inr tradeamount \<Rightarrow>
       (case py_float L tradeprice0 of
           Inl x \<Rightarrow> (Inl x, w)
         | Inr tradeprice \<Rightarrow>
       (if tradetype = ''BUY'' \<or> tradetype = ''SELL'' then
          (if tradebase = 0 \<or> tradebase = 1 then
             (let (req, w) = alloc [(''tradetype'', PStr tradetype),
                                    (''tradebase'', PInt tradebase),
                                    (''tradeprice'', PFloat tradeprice),
                                    (''tradeamount'', PFloat tradeamount)] w
              in returned (api_query L e (''trade/'' @ py_str_of L market) (Some req) w))
           else
             (Inr (Tuple [PStr ''tradebase'', PStr (py_str_int tradebase),
                          PStr (''is invalid (Set as 0 for market currency or 1 for ''
                                @ ''basecurrency as tradeamount)'')]), w))
        else
          (Inr (Tuple [PStr ''trade type'', PStr (py_str tradetype),
                       PStr ''is invalid. (Set as  BUY or SELL)'']), w)))))"

definition trade_history :: "stdlib \<Rightarrow> env \<Rightarrow> world \<Rightarrow> (exn + retval) \<times> world" where
  "trade_history L e w = returned (api_query L e ''tradehistory'' None w)"

definition get_deposit_history :: "stdlib \<Rightarrow> env \<Rightarrow> world \<Rightarrow> (exn + retval) \<times> world" where
  "get_deposit_history L e w = returned (api_query L e ''getdeposithistory'' None w)"

definition get_withdrawal_history :: "stdlib \<Rightarrow> env \<Rightarrow> world \<Rightarrow> (exn + retval) \<times> world" where
  "get_withdrawal_history L e w = returned (api_query L e ''getwithdrawalhistory'' None w)"

definition wallet_status ::
  "stdlib \<Rightarrow> env \<Rightarrow> pyval \<Rightarrow> world \<Rightarrow> (exn + retval) \<times> world" where
  "wallet_status L e currency w =
     (if currency = PNone then returned (api_query L e ''walletstatus'' None w)
      else returned (api_query L e (''walletstatus/'' @ py_str_of L currency) None w))"

section \<open>The operations of a client instance\<close>

datatype call =
    ApiQuery string "nat option"
  | Markets
  | MarketInfo pyval
  | MarketOrderHistory pyval
  | MarketOpenOrders pyval pyval
  | GetBalances
  | GetBalance pyval
  | GetDeposits
  | GetWithdrawals
  | GetNewDepositAddress pyval
  | GetDepositAddress pyval
  | MyOpenOrders
  | MyOpenOrdersMarket pyval
  | CancelOrder pyval
  | Withdraw pyval pyval pyval
  | Trade pyval pyval pyval pyval pyval
  | TradeHistory
  | GetDepositHistory
  | GetWithdrawalHistory
  | WalletStatus pyval

fun invoke :: "stdlib \<Rightarrow> env \<Rightarrow> call \<Rightarrow> world \<Rightarrow> (exn + retval) \<times> world" where
  "invoke L e (ApiQuery method req) w = returned (api_query L e method req w)"
| "invoke L e Markets w = markets L e w"
| "invoke L e (MarketInfo market) w = market_info L e market w"
| "invoke L e (MarketOrderHistory market) w = market_order_history L e market w"
| "invoke L e (MarketOpenOrders market ordertype) w = market_open_orders L e market ordertype w"
| "invoke L e GetBalances w = get_balances L e w"
| "invoke L e (GetBalance currency) w = get_balance L e currency w"
| "invoke L e GetDeposits w = get_deposits L e w"
| "invoke L e GetWithdrawals w = get_withdrawals L e w"
| "invoke L e (GetNewDepositAddress currency) w = get_new_deposit_address L e currency w"
| "invoke L e (GetDepositAddress currency) w = get_deposit_address L e currency w"
| "invoke L e MyOpenOrders w = my_open_orders L e w"
| "invoke L e (MyOpenOrdersMarket market) w = my_open_orders_market L e market w"
| "invoke L e (CancelOrder order_id) w = cancel_order L e order_id w"
| "invoke L e (Withdraw currency amount address) w = withdraw L e currency amount address w"
| "invoke L e (Trade market tradetype tradeamount tradeprice tradebase) w =
     trade L e market tradetype tradeamount tradeprice tradebase w"
| "invoke L e TradeHistory w = trade_history L e w"
| "invoke L e GetDepositHistory w = get_deposit_history L e w"
| "invoke L e GetWithdrawalHistory w = get_withdrawal_history L e w"
| "invoke L e (WalletStatus currency) w = wallet_status L e currency w"

text \<open>
  A run of operations on one instance, each in its own environment; an operation that raised
  leaves the instance usable, so the run goes on from the state it left.
\<close>

fun invoke_all :: "stdlib \<Rightarrow> (env \<times> call) list \<Rightarrow> world \<Rightarrow> world" where
  "invoke_all L [] w = w"
| "invoke_all L ((e, c) # cs) w = invoke_all L cs (snd (invoke L e c w))"

section \<open>Notions of the specification\<close>

text \<open>The first path segment of a method string: its text up to the first \<open>/\<close>.\<close>

definition first_segment :: "string \<Rightarrow> string" where
  "first_segment method = takeWhile (\<lambda>c. c \<noteq> CHR ''/'') method"

text \<open>A reference a caller passes designates a dict object of the store.\<close>

definition live :: "nat option \<Rightarrow> world \<Rightarrow> bool" where
  "live req w = (case req of None \<Rightarrow> True | Some a \<Rightarrow> a < length (heap w))"

text \<open>The entries of the mapping a caller passes (none when the caller passes \<open>None\<close>).\<close>

definition contents :: "nat option \<Rightarrow> world \<Rightarrow> pydict" where
  "contents req w = (case req of None \<Rightarrow> [] | Some a \<Rightarrow> heap w ! a)"

text \<open>The canonical URL of a private call: \<open>{base}/private/{method}/?nonce={nonce}\<close>.\<close>

definition canonical_url :: "string \<Rightarrow> string \<Rightarrow> string \<Rightarrow> string" where
  "canonical_url base method nonce = base @ ''/private/'' @ method @ ''/?nonce='' @ nonce"

text \<open>The fields a request carries in its form body.\<close>

fun form_fields :: "http_request \<Rightarrow> pydict" where
  "form_fields (Get u t) = []"
| "form_fields (Post u d h t) = d"

text \<open>The request of a private call, in full.\<close>

definition private_post :: "stdlib \<Rightarrow> env \<Rightarrow> string \<Rightarrow> nat option \<Rightarrow> world \<Rightarrow> http_request" where
  "private_post L e method req w =
     (let url = canonical_url ''https://novaexchange.com/remote/v2'' method
                  (py_str_int (py_int_of_float (time_time e)))
      in Post url
           (AList.update ''signature''
              (PBytes (b64encode L (hmac_sha512 L (encode_utf8 (api_secret (self w)))
                 (encode_utf8 url))))
              (AList.update ''apikey'' (PStr (api_key (self w))) (contents req w)))
           [(''content-type'', ''application/x-www-form-urlencoded'')] 60)"


section \<open>Basic facts\<close>

lemma py_split_nonempty: "py_split sep s \<noteq> []"
  by (induction s) (auto split: list.splits)

lemma hd_py_split: "hd (py_split sep s) = takeWhile (\<lambda>c. c \<noteq> sep) s"
proof (induction s)
  case Nil
  show ?case by simp
next
  case (Cons c cs)
  then show ?case
    using py_split_nonempty [of sep cs] by (cases "py_split sep cs") auto
qed

section \<open>The branches of the dispatcher\<close>

lemma first_segment_code: "hd (py_split CHR ''/'' method) = first_segment method"
  by (simp add: hd_py_split first_segment_def)

lemma private_not_market: "x \<in> set private_set \<Longrightarrow> take 6 x \<noteq> ''market''"
  by (auto simp: private_set_def)

lemma default_req_self: "self (snd (default_req req w)) = self w"
  by (simp add: default_req_def alloc_def split: option.splits)

lemma default_req_sent: "sent (snd (default_req req w)) = sent w"
  by (simp add: default_req_def alloc_def split: option.splits)

lemma default_req_heap_prefix:
  "take (length (heap w)) (heap (snd (default_req req w))) = heap w"
  by (simp add: default_req_def alloc_def split: option.splits)

lemma default_req_live:
  "live req w \<Longrightarrow> fst (default_req req w) < length (heap (snd (default_req req w)))"
  by (simp add: default_req_def alloc_def live_def split: option.splits)

lemma default_req_contents:
  "heap (snd (default_req req w)) ! fst (default_req req w) = contents req w"
  by (simp add: default_req_def alloc_def contents_def split: option.splits)

lemma api_query_market:
  assumes "take 6 (first_segment method) = ''market''"
  shows "api_query L e method req w =
     request e (Get (''https://novaexchange.com/remote/v2/'' @ method @ ''/'') 60)
       (snd (default_req req w))"
  using assms by (simp add: api_query_def Let_def split_beta first_segment_code)

lemma api_query_private:
  assumes "first_segment method \<in> set private_set"
  shows "api_query L e method req w =
     (let url = ''https://novaexchange.com/remote/v2/private/'' @ method @ ''/?nonce=''
                  @ py_str_int (py_int_of_float (time_time e));
          a = fst (default_req req w);
          w1 = setitem a ''apikey'' (PStr (api_key (self w))) (snd (default_req req w));
          w2 = setitem a ''signature''
                 (PBytes (b64encode L (hmac_sha512 L (encode_utf8 (api_secret (self w)))
                    (encode_utf8 url)))) w1
      in request e (Post url (heap w2 ! a)
            [(''content-type'', ''application/x-www-form-urlencoded'')] 60) w2)"
  using assms private_not_market [OF assms]
  by (simp add: api_query_def Let_def split_beta setitem_def default_req_self first_segment_code)

lemma api_query_other:
  assumes "take 6 (first_segment method) \<noteq> ''market''"
    and "first_segment method \<notin> set private_set"
  shows "api_query L e method req w = (Inl UnboundLocalError, snd (default_req req w))"
  using assms by (simp add: api_query_def Let_def split_beta first_segment_code)

lemma api_query_private_result:
  assumes "first_segment method \<in> set private_set" and "live req w"
  shows "fst (api_query L e method req w) = http e (private_post L e method req w)"
    and "sent (snd (api_query L e method req w)) = sent w @ [private_post L e method req w]"
    and "self (snd (api_query L e method req w)) = self w"
  using default_req_live [OF assms(2)]
  by (simp_all add: api_query_private [OF assms(1)] Let_def request_def setitem_def
      private_post_def canonical_url_def default_req_contents default_req_sent default_req_self)

lemma str_nat_digit: "n < 10 \<Longrightarrow> str_nat n = [digit_char n]"
  by (simp add: str_nat.simps)

lemma str_nat_step: "10 \<le> n \<Longrightarrow> str_nat n = str_nat (n div 10) @ [digit_char (n mod 10)]"
  by (subst str_nat.simps) simp

lemma api_query_market_result:
  assumes "take 6 (first_segment method) = ''market''"
  shows "fst (api_query L e method req w)
           = http e (Get (''https://novaexchange.com/remote/v2/'' @ method @ ''/'') 60)"
    and "sent (snd (api_query L e method req w))
           = sent w @ [Get (''https://novaexchange.com/remote/v2/'' @ method @ ''/'') 60]"
    and "self (snd (api_query L e method req w)) = self w"
    and "take (length (heap w)) (heap (snd (api_query L e method req w))) = heap w"
  by (simp_all add: api_query_market [OF assms] request_def default_req_sent default_req_self
      default_req_heap_prefix)

lemma api_query_other_result:
  assumes "take 6 (first_segment method) \<noteq> ''market''"
    and "first_segment method \<notin> set private_set"
  shows "fst (api_query L e method req w) = Inl UnboundLocalError"
    and "sent (snd (api_query L e method req w)) = sent w"
    and "self (snd (api_query L e method req w)) = self w"
    and "take (length (heap w)) (heap (snd (api_query L e method req w))) = heap w"
  by (simp_all add: api_query_other [OF assms] default_req_sent default_req_self
      default_req_heap_prefix)

lemma api_query_private_sent:
  assumes "first_segment method \<in> set private_set"
  shows "\<exists>u d h t. sent (snd (api_query L e method req w)) = sent w @ [Post u d h t]"
  by (simp add: api_query_private [OF assms] Let_def request_def setitem_def default_req_sent)

lemma filter_update_other:
  "k \<noteq> k' \<Longrightarrow> filter (\<lambda>p. fst p = k) (AList.update k' v al) = filter (\<lambda>p. fst p = k) al"
  by (induction al) auto

lemma filter_update_same:
  "distinct (map fst al) \<Longrightarrow> filter (\<lambda>p. fst p = k) (AList.update k v al) = [(k, v)]"
proof (induction al)
  case Nil
  show ?case by simp
next
  case (Cons p ps)
  show ?case
  proof (cases "fst p = k")
    case True
    from Cons.prems have "fst p \<notin> fst ` set ps"
      by simp
    with True have "\<forall>q \<in> set ps. fst q \<noteq> k"
      by (metis imageI)
    then have "filter (\<lambda>q. fst q = k) ps = []"
      by (simp add: filter_empty_conv)
    with True show ?thesis by simp
  next
    case False
    with Cons show ?thesis by simp
  qed
qed















lemma api_query_self: "self (snd (api_query L e method req w)) = self w"
  by (simp add: api_query_def Let_def split_beta request_def setitem_def default_req_self)

lemma returned_self: "self (snd (returned r)) = self (snd r)"
  by (simp add: returned_def)

lemma invoke_self: "self (snd (invoke L e c w)) = self w"
proof (cases c)
  case (Withdraw currency amount address)
  then show ?thesis
    by (simp add: withdraw_def alloc_def returned_self api_query_self split_beta
        split: sum.splits)
next
  case (Trade market tradetype tradeamount tradeprice tradebase)
  then show ?thesis
    by (simp add: trade_def Let_def alloc_def returned_self api_query_self split_beta
        split: sum.splits)
next
  case (WalletStatus currency)
  then show ?thesis
    by (simp add: wallet_status_def returned_self api_query_self)
next
  case (MarketOpenOrders market ordertype)
  then show ?thesis
    by (simp add: market_open_orders_def Let_def returned_self api_query_self)
qed (simp_all add: markets_def market_info_def market_order_history_def get_balances_def
      get_balance_def get_deposits_def get_withdrawals_def get_new_deposit_address_def
      get_deposit_address_def my_open_orders_def my_open_orders_market_def cancel_order_def
      trade_history_def get_deposit_history_def get_withdrawal_history_def
      returned_self api_query_self)

lemma invoke_all_self: "self (invoke_all L cs w) = self w"
proof (induction cs arbitrary: w)
  case Nil
  show ?case by simp
next
  case (Cons c cs)
  then show ?case
    by (cases c) (simp add: invoke_self)
qed

lemma filter_update_drop:
  "(\<And>x. \<not> P (k, x)) \<Longrightarrow> filter P (AList.update k v al) = filter P al"
proof (induction al)
  case Nil
  then show ?case by simp
next
  case (Cons p ps)
  then show ?case
    by (cases p) auto
qed

lemma api_query_private_heap:
  assumes "first_segment method \<in> set private_set"
    and "a < length (heap w)" and "heap w ! a \<noteq> []"
  shows "heap (snd (api_query L e method (Some a) w))
     = (heap w)[a := AList.update ''signature''
          (PBytes (b64encode L (hmac_sha512 L (encode_utf8 (api_secret (self w)))
             (encode_utf8 (canonical_url ''https://novaexchange.com/remote/v2'' method
                (py_str_int (py_int_of_float (time_time e))))))))
          (AList.update ''apikey'' (PStr (api_key (self w))) (heap w ! a))]"
proof -
  have d: "default_req (Some a) w = (a, w)"
    using assms(3) by (simp add: default_req_def)
  show ?thesis
    using assms(2)
    by (simp add: api_query_private [OF assms(1)] Let_def request_def setitem_def d
        canonical_url_def)
qed


section \<open>Claims\<close>

text \<open>
  C1. For every private call (a method whose first segment is in the private set) the request
  is a POST to the canonical URL \<open>{base}/private/{method}/?nonce={nonce}\<close>, the
  \<open>signature\<close> field it transmits is \<open>b64encode(HMAC-SHA512(key = secret bytes, msg = URL
  bytes))\<close>, and the URL that is signed is the very string the POST is sent to.
\<close>

theorem private_call_signs_the_posted_url:
  assumes "first_segment method \<in> set private_set" and "live req w"
  shows "\<exists>url d.
      sent (snd (api_query L e method req w))
        = sent w @ [Post url d [(''content-type'', ''application/x-www-form-urlencoded'')] 60]
    \<and> url = canonical_url ''https://novaexchange.com/remote/v2'' method
              (py_str_int (py_int_of_float (time_time e)))
    \<and> map_of d ''signature''
        = Some (PBytes (b64encode L
            (hmac_sha512 L (encode_utf8 (api_secret (self w))) (encode_utf8 url))))"
  by (simp add: api_query_private_result(2) [OF assms] private_post_def Let_def update_conv')

theorem private_call_signs_the_posted_url_witness:
  "\<forall>L hp.
     first_segment ''getbalance/BTC'' \<in> set private_set
   \<and> live None \<lparr>self = init (Some ''key'') (Some ''secret''), heap = [], sent = []\<rparr>
   \<and> (\<exists>d. sent (snd (api_query L \<lparr>time_time = 3000000001 / 2, http = hp\<rparr> ''getbalance/BTC'' None
                 \<lparr>self = init (Some ''key'') (Some ''secret''), heap = [], sent = []\<rparr>))
         = [Post ''https://novaexchange.com/remote/v2/private/getbalance/BTC/?nonce=1500000000'' d
              [(''content-type'', ''application/x-www-form-urlencoded'')] 60]
       \<and> map_of d ''signature''
           = Some (PBytes (b64encode L (hmac_sha512 L ''secret''
               ''https://novaexchange.com/remote/v2/private/getbalance/BTC/?nonce=1500000000''))))"
proof (intro allI)
  fix L :: stdlib and hp :: "http_request \<Rightarrow> exn + string"
  let ?w = "\<lparr>self = init (Some ''key'') (Some ''secret''), heap = [], sent = []\<rparr>"
  have p: "first_segment ''getbalance/BTC'' \<in> set private_set"
    by (simp add: first_segment_def private_set_def)
  have l: "live None ?w"
    by (simp add: live_def)
  have f: "py_int_of_float (3000000001 / 2) = 1500000000"
    by (simp add: py_int_of_float_def floor_eq_iff)
  have n: "py_str_int 1500000000 = ''1500000000''"
    by (simp add: py_str_int_def str_nat_digit str_nat_step digit_char_def)
  show "first_segment ''getbalance/BTC'' \<in> set private_set
   \<and> live None ?w
   \<and> (\<exists>d. sent (snd (api_query L \<lparr>time_time = 3000000001 / 2, http = hp\<rparr> ''getbalance/BTC'' None ?w))
         = [Post ''https://novaexchange.com/remote/v2/private/getbalance/BTC/?nonce=1500000000'' d
              [(''content-type'', ''application/x-www-form-urlencoded'')] 60]
       \<and> map_of d ''signature''
           = Some (PBytes (b64encode L (hmac_sha512 L ''secret''
               ''https://novaexchange.com/remote/v2/private/getbalance/BTC/?nonce=1500000000''))))"
    using private_call_signs_the_posted_url [OF p l, of L "\<lparr>time_time = 3000000001 / 2, http = hp\<rparr>"] p l
    by (simp add: f n canonical_url_def init_def encode_utf8_def)
qed

text \<open>
  C2. The dispatcher sends a GET (the public/market class) exactly when the first six
  characters of the first path segment are \<open>market\<close>, and a POST (the private class) exactly
  when that test fails and the first segment is one of the fifteen private method names.
\<close>

theorem dispatch_classification:
  "(\<exists>u t. sent (snd (api_query L e method req w)) = sent w @ [Get u t])
     = (take 6 (first_segment method) = ''market'')
   \<and> (\<exists>u d h t. sent (snd (api_query L e method req w)) = sent w @ [Post u d h t])
     = (take 6 (first_segment method) \<noteq> ''market''
        \<and> first_segment method \<in>
            {''getbalances'', ''getbalance'', ''getdeposits'', ''getwithdrawals'',
             ''getnewdepositaddress'', ''getdepositaddress'', ''myopenorders'',
             ''myopenorders_market'', ''cancelorder'', ''withdraw'', ''trade'', ''tradehistory'',
             ''getdeposithistory'', ''getwithdrawalhistory'', ''walletstatus''})"
proof -
  have names: "set private_set =
            {''getbalances'', ''getbalance'', ''getdeposits'', ''getwithdrawals'',
             ''getnewdepositaddress'', ''getdepositaddress'', ''myopenorders'',
             ''myopenorders_market'', ''cancelorder'', ''withdraw'', ''trade'', ''tradehistory'',
             ''getdeposithistory'', ''getwithdrawalhistory'', ''walletstatus''}"
    by (simp add: private_set_def)
  consider (market) "take 6 (first_segment method) = ''market''"
    | (priv) "take 6 (first_segment method) \<noteq> ''market''"
        "first_segment method \<in> set private_set"
    | (other) "take 6 (first_segment method) \<noteq> ''market''"
        "first_segment method \<notin> set private_set"
    by blast
  then show ?thesis
  proof cases
    case market
    then show ?thesis
      unfolding names [symmetric] by (simp add: api_query_market_result(2))
  next
    case priv
    then show ?thesis
      unfolding names [symmetric]
      using api_query_private_sent [OF priv(2), of L e req w] by auto
  next
    case other
    then show ?thesis
      unfolding names [symmetric] by (simp add: api_query_other_result(2))
  qed
qed

text \<open>
  C3. For every method whose first segment is in the private set the dispatcher issues one
  POST whose form body has exactly one \<open>apikey\<close> field, holding the client's API key, and
  exactly one \<open>signature\<close> field, whatever the caller's mapping held under those keys, and
  whose URL ends in the query \<open>?nonce=\<close> followed by the decimal string of
  \<open>int(time.time())\<close>. The caller's mapping is a dict: its keys are distinct.
\<close>

theorem private_call_form_body_and_nonce:
  assumes "first_segment method \<in> set private_set" and "live req w"
    and "distinct (map fst (contents req w))"
  shows "\<exists>url d sig.
      sent (snd (api_query L e method req w))
        = sent w @ [Post url d [(''content-type'', ''application/x-www-form-urlencoded'')] 60]
    \<and> filter (\<lambda>p. fst p = ''apikey'') d = [(''apikey'', PStr (api_key (self w)))]
    \<and> filter (\<lambda>p. fst p = ''signature'') d = [(''signature'', PBytes sig)]
    \<and> url = ''https://novaexchange.com/remote/v2/private/'' @ method @ ''/?nonce=''
              @ py_str_int (py_int_of_float (time_time e))"
proof -
  have "distinct (map fst (AList.update ''apikey'' (PStr (api_key (self w))) (contents req w)))"
    using assms(3) by (rule distinct_update)
  then show ?thesis
    by (simp add: api_query_private_result(2) [OF assms(1,2)] private_post_def Let_def
        canonical_url_def filter_update_same filter_update_other assms(3))
qed

theorem private_call_form_body_and_nonce_witness:
  "\<forall>L hp.
     first_segment ''withdraw/BTC'' \<in> set private_set
   \<and> live (Some 0)
        \<lparr>self = init (Some ''key'') (Some ''secret''),
         heap = [[(''apikey'', PStr ''mine''), (''currency'', PStr ''BTC'')]], sent = []\<rparr>
   \<and> distinct (map fst (contents (Some 0)
        \<lparr>self = init (Some ''key'') (Some ''secret''),
         heap = [[(''apikey'', PStr ''mine''), (''currency'', PStr ''BTC'')]], sent = []\<rparr>))
   \<and> (\<exists>d sig. sent (snd (api_query L \<lparr>time_time = 3000000001 / 2, http = hp\<rparr> ''withdraw/BTC''
                 (Some 0)
                 \<lparr>self = init (Some ''key'') (Some ''secret''),
                  heap = [[(''apikey'', PStr ''mine''), (''currency'', PStr ''BTC'')]], sent = []\<rparr>))
         = [Post ''https://novaexchange.com/remote/v2/private/withdraw/BTC/?nonce=1500000000'' d
              [(''content-type'', ''application/x-www-form-urlencoded'')] 60]
       \<and> filter (\<lambda>p. fst p = ''apikey'') d = [(''apikey'', PStr ''key'')]
       \<and> filter (\<lambda>p. fst p = ''signature'') d = [(''signature'', PBytes sig)])"
proof (intro allI)
  fix L :: stdlib and hp :: "http_request \<Rightarrow> exn + string"
  let ?w = "\<lparr>self = init (Some ''key'') (Some ''secret''),
         heap = [[(''apikey'', PStr ''mine''), (''currency'', PStr ''BTC'')]], sent = []\<rparr>"
  have p: "first_segment ''withdraw/BTC'' \<in> set private_set"
    by (simp add: first_segment_def private_set_def)
  have l: "live (Some 0) ?w"
    by (simp add: live_def)
  have d: "distinct (map fst (contents (Some 0) ?w))"
    by (simp add: contents_def)
  have f: "py_int_of_float (3000000001 / 2) = 1500000000"
    by (simp add: py_int_of_float_def floor_eq_iff)
  have n: "py_str_int 1500000000 = ''1500000000''"
    by (simp add: py_str_int_def str_nat_digit str_nat_step digit_char_def)
  show "first_segment ''withdraw/BTC'' \<in> set private_set
   \<and> live (Some 0) ?w
   \<and> distinct (map fst (contents (Some 0) ?w))
   \<and> (\<exists>d sig. sent (snd (api_query L \<lparr>time_time = 3000000001 / 2, http = hp\<rparr> ''withdraw/BTC''
                 (Some 0) ?w))
         = [Post ''https://novaexchange.com/remote/v2/private/withdraw/BTC/?nonce=1500000000'' d
              [(''content-type'', ''application/x-www-form-urlencoded'')] 60]
       \<and> filter (\<lambda>p. fst p = ''apikey'') d = [(''apikey'', PStr ''key'')]
       \<and> filter (\<lambda>p. fst p = ''signature'') d = [(''signature'', PBytes sig)])"
    using private_call_form_body_and_nonce
      [OF p l d, of L "\<lparr>time_time = 3000000001 / 2, http = hp\<rparr>"] p l d
    by (simp add: f n init_def)
qed

text \<open>
  C4. For every method whose first segment starts with the six characters \<open>market\<close> the
  dispatcher issues one GET to \<open>{base}/{method}/\<close> with timeout 60 and returns what the
  transport answers. The request has no form body (so no \<open>apikey\<close> and no \<open>signature\<close>),
  and every dict object the caller holds is left as it was.
\<close>

theorem market_call_is_plain_get:
  assumes "take 6 (first_segment method) = ''market''"
  shows "\<exists>r.
      sent (snd (api_query L e method req w)) = sent w @ [r]
    \<and> r = Get (''https://novaexchange.com/remote/v2'' @ ''/'' @ method @ ''/'') 60
    \<and> fst (api_query L e method req w) = http e r
    \<and> form_fields r = []
    \<and> map_of (form_fields r) ''apikey'' = None
    \<and> map_of (form_fields r) ''signature'' = None
    \<and> take (length (heap w)) (heap (snd (api_query L e method req w))) = heap w"
  by (simp add: api_query_market_result [OF assms])

theorem market_call_is_plain_get_witness:
  "\<forall>L e.
     take 6 (first_segment ''markets'') = ''market''
   \<and> sent (snd (api_query L e ''markets'' (Some 0)
        \<lparr>self = init None None, heap = [[(''page'', PInt 2)]], sent = []\<rparr>))
       = [Get ''https://novaexchange.com/remote/v2/markets/'' 60]
   \<and> fst (api_query L e ''markets'' (Some 0)
        \<lparr>self = init None None, heap = [[(''page'', PInt 2)]], sent = []\<rparr>)
       = http e (Get ''https://novaexchange.com/remote/v2/markets/'' 60)
   \<and> take 1 (heap (snd (api_query L e ''markets'' (Some 0)
        \<lparr>self = init None None, heap = [[(''page'', PInt 2)]], sent = []\<rparr>)))
       = [[(''page'', PInt 2)]]"
proof (intro allI)
  fix L :: stdlib and e :: env
  let ?w = "\<lparr>self = init None None, heap = [[(''page'', PInt 2)]], sent = []\<rparr>"
  have m: "take 6 (first_segment ''markets'') = ''market''"
    by (simp add: first_segment_def)
  show "take 6 (first_segment ''markets'') = ''market''
   \<and> sent (snd (api_query L e ''markets'' (Some 0) ?w))
       = [Get ''https://novaexchange.com/remote/v2/markets/'' 60]
   \<and> fst (api_query L e ''markets'' (Some 0) ?w)
       = http e (Get ''https://novaexchange.com/remote/v2/markets/'' 60)
   \<and> take 1 (heap (snd (api_query L e ''markets'' (Some 0) ?w))) = [[(''page'', PInt 2)]]"
    using market_call_is_plain_get [OF m, of L e "Some 0" ?w] m
    by simp
qed

text \<open>
  C5. For every method whose first segment neither starts with \<open>market\<close> nor is in the
  private set, no branch of the dispatcher runs: no request is sent, and the call produces no
  value, the final \<open>return(r.text)\<close> raising \<open>UnboundLocalError\<close> as \<open>r\<close> was never bound.
\<close>

theorem unclassified_call_sends_nothing:
  assumes "take 6 (first_segment method) \<noteq> ''market''"
    and "first_segment method \<notin> set private_set"
  shows "sent (snd (api_query L e method req w)) = sent w
    \<and> fst (api_query L e method req w) = Inl UnboundLocalError
    \<and> (\<nexists>body. fst (api_query L e method req w) = Inr body)"
  by (simp add: api_query_other_result [OF assms])

theorem unclassified_call_sends_nothing_witness:
  "\<forall>L e.
     take 6 (first_segment ''ticker/BTC'') \<noteq> ''market''
   \<and> first_segment ''ticker/BTC'' \<notin> set private_set
   \<and> api_query L e ''ticker/BTC'' None \<lparr>self = init None None, heap = [], sent = []\<rparr>
       = (Inl UnboundLocalError, \<lparr>self = init None None, heap = [[]], sent = []\<rparr>)
   \<and> sent (snd (api_query L e ''ticker/BTC'' None
        \<lparr>self = init None None, heap = [], sent = []\<rparr>)) = []"
proof (intro allI)
  fix L :: stdlib and e :: env
  let ?w = "\<lparr>self = init None None, heap = [], sent = []\<rparr>"
  have m: "take 6 (first_segment ''ticker/BTC'') \<noteq> ''market''"
    by (simp add: first_segment_def)
  have p: "first_segment ''ticker/BTC'' \<notin> set private_set"
    by (simp add: first_segment_def private_set_def)
  have q: "api_query L e ''ticker/BTC'' None ?w
       = (Inl UnboundLocalError, \<lparr>self = init None None, heap = [[]], sent = []\<rparr>)"
    by (simp add: api_query_other [OF m p] default_req_def alloc_def)
  show "take 6 (first_segment ''ticker/BTC'') \<noteq> ''market''
   \<and> first_segment ''ticker/BTC'' \<notin> set private_set
   \<and> api_query L e ''ticker/BTC'' None ?w
       = (Inl UnboundLocalError, \<lparr>self = init None None, heap = [[]], sent = []\<rparr>)
   \<and> sent (snd (api_query L e ''ticker/BTC'' None ?w)) = []"
    using unclassified_call_sends_nothing [OF m p, of L e None ?w] m p q
    by simp
qed

text \<open>
  C6. The signature of a private call is \<open>b64encode(HMAC-SHA512(secret, url))\<close> for the URL it
  posts to, and it depends on nothing else: two invocations with the same secret that post to
  the same URL carry the same signature, whatever their API keys, parameters, stores and
  transports are.
\<close>

theorem signature_determined_by_secret_and_url:
  assumes "first_segment method1 \<in> set private_set" and "live req1 w1"
    and "first_segment method2 \<in> set private_set" and "live req2 w2"
    and "api_secret (self w1) = api_secret (self w2)"
    and "sent (snd (api_query L e1 method1 req1 w1)) = sent w1 @ [Post url d1 h1 t1]"
    and "sent (snd (api_query L e2 method2 req2 w2)) = sent w2 @ [Post url d2 h2 t2]"
  shows "map_of d1 ''signature''
           = Some (PBytes (b64encode L
               (hmac_sha512 L (encode_utf8 (api_secret (self w1))) (encode_utf8 url))))
    \<and> map_of d2 ''signature'' = map_of d1 ''signature''"
proof -
  have "private_post L e1 method1 req1 w1 = Post url d1 h1 t1"
    using assms(6) by (simp add: api_query_private_result(2) [OF assms(1,2)])
  then have s1: "map_of d1 ''signature''
           = Some (PBytes (b64encode L
               (hmac_sha512 L (encode_utf8 (api_secret (self w1))) (encode_utf8 url))))"
    by (auto simp add: private_post_def Let_def update_conv')
  have "private_post L e2 method2 req2 w2 = Post url d2 h2 t2"
    using assms(7) by (simp add: api_query_private_result(2) [OF assms(3,4)])
  then have s2: "map_of d2 ''signature''
           = Some (PBytes (b64encode L
               (hmac_sha512 L (encode_utf8 (api_secret (self w2))) (encode_utf8 url))))"
    by (auto simp add: private_post_def Let_def update_conv')
  from s1 s2 assms(5) show ?thesis by simp
qed

theorem signature_determined_by_secret_and_url_witness:
  "\<forall>L hp1 hp2. \<exists>d1 d2.
     first_segment ''getbalances'' \<in> set private_set
   \<and> live None \<lparr>self = init (Some ''alice'') (Some ''secret''), heap = [], sent = []\<rparr>
   \<and> live (Some 0) \<lparr>self = init (Some ''bob'') (Some ''secret''),
                      heap = [[(''page'', PInt 2)]], sent = []\<rparr>
   \<and> sent (snd (api_query L \<lparr>time_time = 3000000001 / 2, http = hp1\<rparr> ''getbalances'' None
        \<lparr>self = init (Some ''alice'') (Some ''secret''), heap = [], sent = []\<rparr>))
       = [Post ''https://novaexchange.com/remote/v2/private/getbalances/?nonce=1500000000'' d1
            [(''content-type'', ''application/x-www-form-urlencoded'')] 60]
   \<and> sent (snd (api_query L \<lparr>time_time = 6000000001 / 4, http = hp2\<rparr> ''getbalances'' (Some 0)
        \<lparr>self = init (Some ''bob'') (Some ''secret''), heap = [[(''page'', PInt 2)]], sent = []\<rparr>))
       = [Post ''https://novaexchange.com/remote/v2/private/getbalances/?nonce=1500000000'' d2
            [(''content-type'', ''application/x-www-form-urlencoded'')] 60]
   \<and> d1 \<noteq> d2
   \<and> map_of d1 ''signature''
       = Some (PBytes (b64encode L (hmac_sha512 L ''secret''
           ''https://novaexchange.com/remote/v2/private/getbalances/?nonce=1500000000'')))
   \<and> map_of d2 ''signature'' = map_of d1 ''signature''"
proof (intro allI)
  fix L :: stdlib and hp1 hp2 :: "http_request \<Rightarrow> exn + string"
  let ?w1 = "\<lparr>self = init (Some ''alice'') (Some ''secret''), heap = [], sent = []\<rparr>"
  let ?w2 = "\<lparr>self = init (Some ''bob'') (Some ''secret''),
              heap = [[(''page'', PInt 2)]], sent = []\<rparr>"
  let ?e1 = "\<lparr>time_time = 3000000001 / 2, http = hp1\<rparr>"
  let ?e2 = "\<lparr>time_time = 6000000001 / 4, http = hp2\<rparr>"
  let ?u = "''https://novaexchange.com/remote/v2/private/getbalances/?nonce=1500000000''"
  let ?h = "[(''content-type'', ''application/x-www-form-urlencoded'')]"
  let ?sig = "PBytes (b64encode L (hmac_sha512 L ''secret'' ?u))"
  let ?d1 = "[(''apikey'', PStr ''alice''), (''signature'', ?sig)]"
  let ?d2 = "[(''page'', PInt 2), (''apikey'', PStr ''bob''), (''signature'', ?sig)]"
  have p: "first_segment ''getbalances'' \<in> set private_set"
    by (simp add: first_segment_def private_set_def)
  have l1: "live None ?w1" and l2: "live (Some 0) ?w2"
    by (simp_all add: live_def)
  have f1: "py_int_of_float (3000000001 / 2) = 1500000000"
    by (simp add: py_int_of_float_def floor_eq_iff)
  have f2: "py_int_of_float (6000000001 / 4) = 1500000000"
    by (simp add: py_int_of_float_def floor_eq_iff)
  have n: "py_str_int 1500000000 = ''1500000000''"
    by (simp add: py_str_int_def str_nat_digit str_nat_step digit_char_def)
  have "private_post L ?e1 ''getbalances'' None ?w1 = Post ?u ?d1 ?h 60"
    by (simp add: private_post_def Let_def canonical_url_def contents_def init_def encode_utf8_def f1 n)
  then have s1: "sent (snd (api_query L ?e1 ''getbalances'' None ?w1))
              = sent ?w1 @ [Post ?u ?d1 ?h 60]"
    by (simp only: api_query_private_result(2) [OF p l1])
  have "private_post L ?e2 ''getbalances'' (Some 0) ?w2 = Post ?u ?d2 ?h 60"
    by (simp add: private_post_def Let_def canonical_url_def contents_def init_def encode_utf8_def f2 n)
  then have s2: "sent (snd (api_query L ?e2 ''getbalances'' (Some 0) ?w2))
              = sent ?w2 @ [Post ?u ?d2 ?h 60]"
    by (simp only: api_query_private_result(2) [OF p l2])
  have sec: "api_secret (self ?w1) = api_secret (self ?w2)"
    by (simp add: init_def)
  have "first_segment ''getbalances'' \<in> set private_set
   \<and> live None ?w1 \<and> live (Some 0) ?w2
   \<and> sent (snd (api_query L ?e1 ''getbalances'' None ?w1)) = [Post ?u ?d1 ?h 60]
   \<and> sent (snd (api_query L ?e2 ''getbalances'' (Some 0) ?w2)) = [Post ?u ?d2 ?h 60]
   \<and> ?d1 \<noteq> ?d2
   \<and> map_of ?d1 ''signature'' = Some ?sig
   \<and> map_of ?d2 ''signature'' = map_of ?d1 ''signature''"
    using signature_determined_by_secret_and_url [OF p l1 p l2 sec s1 s2] p l1 l2 s1 s2
    by (simp add: init_def encode_utf8_def)
  then show "\<exists>d1 d2.
     first_segment ''getbalances'' \<in> set private_set
   \<and> live None ?w1 \<and> live (Some 0) ?w2
   \<and> sent (snd (api_query L ?e1 ''getbalances'' None ?w1)) = [Post ?u d1 ?h 60]
   \<and> sent (snd (api_query L ?e2 ''getbalances'' (Some 0) ?w2)) = [Post ?u d2 ?h 60]
   \<and> d1 \<noteq> d2
   \<and> map_of d1 ''signature'' = Some ?sig
   \<and> map_of d2 ''signature'' = map_of d1 ''signature''"
    by blast
qed



text \<open>
  C8, as amended. The wrappers judge an argument after converting it. \<open>market_open_orders\<close>
  rejects every \<open>ordertype\<close> whose \<open>str\<close> is none of \<open>BUY\<close>, \<open>SELL\<close> and \<open>BOTH\<close>. When the
  conversions of \<open>trade\<close> succeed, it rejects every \<open>tradetype\<close> whose \<open>str\<close> is neither \<open>BUY\<close>
  nor \<open>SELL\<close> and every \<open>tradebase\<close> whose \<open>int\<close> is neither 0 nor 1. A rejection returns a
  tuple that describes the error and leaves the state, with the requests sent so far, as it
  was. When a conversion raises, the exception is what the call gives, and the state is as it
  was too. On arguments of the documented types (a string \<open>tradetype\<close>, an integer
  \<open>tradebase\<close>, float amounts) every \<open>tradetype\<close> other than \<open>BUY\<close> and \<open>SELL\<close> and every
  \<open>tradebase\<close> other than 0 and 1 is rejected.
\<close>

theorem wrappers_reject_converted_choices:
  "(py_str_of L ordertype \<notin> {''BUY'', ''SELL'', ''BOTH''} \<longrightarrow>
      market_open_orders L e market ordertype w
        = (Inr (Tuple [ordertype,
                       PStr ''is not a valid ordertype. please use BUY, SELL, or BOTH.'']), w))
   \<and> (py_int L tradebase = Inr b \<and> py_float L tradeamount = Inr a
        \<and> py_float L tradeprice = Inr p \<and> py_str_of L tradetype \<notin> {''BUY'', ''SELL''} \<longrightarrow>
      trade L e market tradetype tradeamount tradeprice tradebase w
        = (Inr (Tuple [PStr ''trade type'', PStr (py_str_of L tradetype),
                       PStr ''is invalid. (Set as  BUY or SELL)'']), w))
   \<and> (py_int L tradebase = Inr b \<and> py_float L tradeamount = Inr a
        \<and> py_float L tradeprice = Inr p \<and> py_str_of L tradetype \<in> {''BUY'', ''SELL''}
        \<and> b \<notin> {0, 1} \<longrightarrow>
      trade L e market tradetype tradeamount tradeprice tradebase w
        = (Inr (Tuple [PStr ''tradebase'', PStr (py_str_int b),
                       PStr (''is invalid (Set as 0 for market currency or 1 for ''
                             @ ''basecurrency as tradeamount)'')]), w))
   \<and> (py_int L tradebase = Inr b \<and> py_float L tradeamount = Inr a
        \<and> py_float L tradeprice = Inr p \<and> b \<notin> {0, 1} \<longrightarrow>
      (\<exists>t. trade L e market tradetype tradeamount tradeprice tradebase w = (Inr (Tuple t), w)))
   \<and> (py_int L tradebase = Inl x \<or> py_float L tradeamount = Inl x
        \<or> py_float L tradeprice = Inl x \<longrightarrow>
      (\<exists>y. trade L e market tradetype tradeamount tradeprice tradebase w = (Inl y, w)))
   \<and> (t \<notin> {''BUY'', ''SELL''} \<or> i \<notin> {0, 1} \<longrightarrow>
      (\<exists>r. trade L e market (PStr t) (PFloat a) (PFloat p) (PInt i) w = (Inr (Tuple r), w)))"
  by (auto simp add: market_open_orders_def trade_def Let_def split: sum.splits)

theorem wrappers_reject_converted_choices_witness:
  "\<forall>L e w.
     py_str_of L (PStr ''buy'') \<notin> {''BUY'', ''SELL'', ''BOTH''}
   \<and> market_open_orders L e (PStr ''LTC_MEOW'') (PStr ''buy'') w
       = (Inr (Tuple [PStr ''buy'',
                      PStr ''is not a valid ordertype. please use BUY, SELL, or BOTH.'']), w)
   \<and> py_int L (PInt 0) = Inr 0 \<and> py_float L (PFloat (Finite 8000)) = Inr (Finite 8000)
   \<and> py_str_of L (PStr ''HOLD'') \<notin> {''BUY'', ''SELL''}
   \<and> trade L e (PStr ''LTC_MEOW'') (PStr ''HOLD'') (PFloat (Finite 8000)) (PFloat (Finite 8000))
         (PInt 0) w
       = (Inr (Tuple [PStr ''trade type'', PStr ''HOLD'',
                      PStr ''is invalid. (Set as  BUY or SELL)'']), w)
   \<and> py_int L (PFloat (Finite (5 / 2))) = Inr 2 \<and> (2 :: int) \<notin> {0, 1}
   \<and> py_str_of L (PStr ''SELL'') \<in> {''BUY'', ''SELL''}
   \<and> trade L e (PStr ''LTC_MEOW'') (PStr ''SELL'') (PFloat (Finite 8000)) (PFloat (Finite 8000))
         (PFloat (Finite (5 / 2))) w
       = (Inr (Tuple [PStr ''tradebase'', PStr ''2'',
                      PStr ''is invalid (Set as 0 for market currency or 1 for basecurrency as tradeamount)'']), w)
   \<and> py_int L PNone = Inl TypeError
   \<and> (\<exists>y. trade L e (PStr ''LTC_MEOW'') (PStr ''SELL'') (PFloat (Finite 8000))
              (PFloat (Finite 8000)) PNone w = (Inl y, w))
   \<and> (\<exists>r. trade L e (PStr ''LTC_MEOW'') (PStr ''SELL'') (PFloat (Finite 8000))
              (PFloat (Finite 8000)) (PInt 2) w = (Inr (Tuple r), w))"
proof (intro allI)
  fix L :: stdlib and e :: env and w :: world
  have n: "py_str_int 2 = ''2''"
    by (simp add: py_str_int_def str_nat_digit digit_char_def)
  have f: "py_int_of_float (5 / 2) = 2"
    by (simp add: py_int_of_float_def floor_eq_iff)
  note inst = wrappers_reject_converted_choices
      [where L = L and e = e and w = w and market = "PStr ''LTC_MEOW''"
         and tradeamount = "PFloat (Finite 8000)" and a = "Finite 8000"
         and tradeprice = "PFloat (Finite 8000)" and p = "Finite 8000"
         and ordertype = "PStr ''buy''" and t = "''SELL''" and i = 2]
  show "py_str_of L (PStr ''buy'') \<notin> {''BUY'', ''SELL'', ''BOTH''}
   \<and> market_open_orders L e (PStr ''LTC_MEOW'') (PStr ''buy'') w
       = (Inr (Tuple [PStr ''buy'',
                      PStr ''is not a valid ordertype. please use BUY, SELL, or BOTH.'']), w)
   \<and> py_int L (PInt 0) = Inr 0 \<and> py_float L (PFloat (Finite 8000)) = Inr (Finite 8000)
   \<and> py_str_of L (PStr ''HOLD'') \<notin> {''BUY'', ''SELL''}
   \<and> trade L e (PStr ''LTC_MEOW'') (PStr ''HOLD'') (PFloat (Finite 8000)) (PFloat (Finite 8000))
         (PInt 0) w
       = (Inr (Tuple [PStr ''trade type'', PStr ''HOLD'',
                      PStr ''is invalid. (Set as  BUY or SELL)'']), w)
   \<and> py_int L (PFloat (Finite (5 / 2))) = Inr 2 \<and> (2 :: int) \<notin> {0, 1}
   \<and> py_str_of L (PStr ''SELL'') \<in> {''BUY'', ''SELL''}
   \<and> trade L e (PStr ''LTC_MEOW'') (PStr ''SELL'') (PFloat (Finite 8000)) (PFloat (Finite 8000))
         (PFloat (Finite (5 / 2))) w
       = (Inr (Tuple [PStr ''tradebase'', PStr ''2'',
                      PStr ''is invalid (Set as 0 for market currency or 1 for basecurrency as tradeamount)'']), w)
   \<and> py_int L PNone = Inl TypeError
   \<and> (\<exists>y. trade L e (PStr ''LTC_MEOW'') (PStr ''SELL'') (PFloat (Finite 8000))
              (PFloat (Finite 8000)) PNone w = (Inl y, w))
   \<and> (\<exists>r. trade L e (PStr ''LTC_MEOW'') (PStr ''SELL'') (PFloat (Finite 8000))
              (PFloat (Finite 8000)) (PInt 2) w = (Inr (Tuple r), w))"
    using inst [where tradetype = "PStr ''HOLD''" and tradebase = "PInt 0" and b = 0
                 and x = TypeError]
      inst [where tradetype = "PStr ''SELL''" and tradebase = "PFloat (Finite (5 / 2))" and b = 2
             and x = TypeError]
      inst [where tradetype = "PStr ''SELL''" and tradebase = PNone and b = 0 and x = TypeError]
    by (simp add: n f)
qed

text \<open>
  C8 as it is written fails on a float: \<open>int\<close> truncates 1.9, which is neither 0 nor 1, to 1,
  and the trade is posted with \<open>tradebase\<close> 1. And where \<open>int\<close> raises, as on \<open>None\<close>, an
  invalid \<open>tradetype\<close> gets the exception, not the tuple.
\<close>

theorem float_tradebase_is_dispatched_counterexample:
  "\<forall>L hp c e w.
     (19 / 10 :: rat) \<notin> {0, 1}
   \<and> sent (snd (trade L \<lparr>time_time = 3000000001 / 2, http = hp\<rparr> (PStr ''LTC_MEOW'')
        (PStr ''BUY'') (PFloat (Finite 8000)) (PFloat (Finite (1 / 2)))
        (PFloat (Finite (19 / 10))) \<lparr>self = c, heap = [], sent = []\<rparr>))
       = [Post ''https://novaexchange.com/remote/v2/private/trade/LTC_MEOW/?nonce=1500000000''
            [(''tradetype'', PStr ''BUY''), (''tradebase'', PInt 1),
             (''tradeprice'', PFloat (Finite (1 / 2))), (''tradeamount'', PFloat (Finite 8000)),
             (''apikey'', PStr (api_key c)),
             (''signature'', PBytes (b64encode L (hmac_sha512 L (api_secret c)
                ''https://novaexchange.com/remote/v2/private/trade/LTC_MEOW/?nonce=1500000000'')))]
            [(''content-type'', ''application/x-www-form-urlencoded'')] 60]
   \<and> ''HOLD'' \<notin> {''BUY'', ''SELL''}
   \<and> trade L e (PStr ''LTC_MEOW'') (PStr ''HOLD'') (PFloat (Finite 8000))
        (PFloat (Finite (1 / 2))) PNone w
       = (Inl TypeError, w)"
proof (intro allI)
  fix L :: stdlib and hp :: "http_request \<Rightarrow> exn + string" and c :: client
    and e :: env and w :: world
  let ?e = "\<lparr>time_time = 3000000001 / 2, http = hp\<rparr>"
  let ?d = "[(''tradetype'', PStr ''BUY''), (''tradebase'', PInt 1),
             (''tradeprice'', PFloat (Finite (1 / 2))), (''tradeamount'', PFloat (Finite 8000))]"
  let ?w1 = "\<lparr>self = c, heap = [?d], sent = []\<rparr>"
  have f19: "py_int_of_float (19 / 10) = 1"
    by (simp add: py_int_of_float_def floor_eq_iff)
  have f: "py_int_of_float (3000000001 / 2) = 1500000000"
    by (simp add: py_int_of_float_def floor_eq_iff)
  have n: "py_str_int 1500000000 = ''1500000000''"
    by (simp add: py_str_int_def str_nat_digit str_nat_step digit_char_def)
  have p: "first_segment ''trade/LTC_MEOW'' \<in> set private_set"
    by (simp add: first_segment_def private_set_def)
  have l: "live (Some 0) ?w1"
    by (simp add: live_def)
  have tr: "trade L ?e (PStr ''LTC_MEOW'') (PStr ''BUY'') (PFloat (Finite 8000))
              (PFloat (Finite (1 / 2))) (PFloat (Finite (19 / 10)))
              \<lparr>self = c, heap = [], sent = []\<rparr>
            = returned (api_query L ?e ''trade/LTC_MEOW'' (Some 0) ?w1)"
    by (simp add: trade_def Let_def alloc_def f19)
  have pp: "private_post L ?e ''trade/LTC_MEOW'' (Some 0) ?w1
      = Post ''https://novaexchange.com/remote/v2/private/trade/LTC_MEOW/?nonce=1500000000''
            (?d @ [(''apikey'', PStr (api_key c)),
             (''signature'', PBytes (b64encode L (hmac_sha512 L (api_secret c)
                ''https://novaexchange.com/remote/v2/private/trade/LTC_MEOW/?nonce=1500000000'')))])
            [(''content-type'', ''application/x-www-form-urlencoded'')] 60"
    by (simp add: private_post_def Let_def canonical_url_def contents_def encode_utf8_def f n)
  have "sent (snd (returned (api_query L ?e ''trade/LTC_MEOW'' (Some 0) ?w1)))
          = sent ?w1 @ [private_post L ?e ''trade/LTC_MEOW'' (Some 0) ?w1]"
    by (simp only: returned_def snd_conv api_query_private_result(2) [OF p l])
  then have s: "sent (snd (trade L ?e (PStr ''LTC_MEOW'') (PStr ''BUY'') (PFloat (Finite 8000))
              (PFloat (Finite (1 / 2))) (PFloat (Finite (19 / 10)))
              \<lparr>self = c, heap = [], sent = []\<rparr>))
       = [Post ''https://novaexchange.com/remote/v2/private/trade/LTC_MEOW/?nonce=1500000000''
            (?d @ [(''apikey'', PStr (api_key c)),
             (''signature'', PBytes (b64encode L (hmac_sha512 L (api_secret c)
                ''https://novaexchange.com/remote/v2/private/trade/LTC_MEOW/?nonce=1500000000'')))])
            [(''content-type'', ''application/x-www-form-urlencoded'')] 60]"
    by (simp only: tr pp) simp
  have x: "trade L e (PStr ''LTC_MEOW'') (PStr ''HOLD'') (PFloat (Finite 8000))
        (PFloat (Finite (1 / 2))) PNone w = (Inl TypeError, w)"
    by (simp add: trade_def Let_def)
  from s x show "(19 / 10 :: rat) \<notin> {0, 1}
   \<and> sent (snd (trade L ?e (PStr ''LTC_MEOW'')
        (PStr ''BUY'') (PFloat (Finite 8000)) (PFloat (Finite (1 / 2)))
        (PFloat (Finite (19 / 10))) \<lparr>self = c, heap = [], sent = []\<rparr>))
       = [Post ''https://novaexchange.com/remote/v2/private/trade/LTC_MEOW/?nonce=1500000000''
            [(''tradetype'', PStr ''BUY''), (''tradebase'', PInt 1),
             (''tradeprice'', PFloat (Finite (1 / 2))), (''tradeamount'', PFloat (Finite 8000)),
             (''apikey'', PStr (api_key c)),
             (''signature'', PBytes (b64encode L (hmac_sha512 L (api_secret c)
                ''https://novaexchange.com/remote/v2/private/trade/LTC_MEOW/?nonce=1500000000'')))]
            [(''content-type'', ''application/x-www-form-urlencoded'')] 60]
   \<and> ''HOLD'' \<notin> {''BUY'', ''SELL''}
   \<and> trade L e (PStr ''LTC_MEOW'') (PStr ''HOLD'') (PFloat (Finite 8000))
        (PFloat (Finite (1 / 2))) PNone w
       = (Inl TypeError, w)"
    by simp
qed

text \<open>
  C9. The constructor stores the empty string for an absent (\<open>None\<close>) API key or secret and
  the given string otherwise, and no operation of the instance, nor any run of them, changes
  the stored credentials.
\<close>

theorem credentials_normalised_and_never_modified:
  "api_key (init None secret) = ''''
   \<and> api_secret (init key None) = ''''
   \<and> api_key (init (Some k) secret) = k
   \<and> api_secret (init key (Some s)) = s
   \<and> self (snd (invoke L e c w)) = self w
   \<and> self (invoke_all L cs w) = self w"
  by (simp add: init_def invoke_self invoke_all_self)

text \<open>
  C10. In a private call to which the caller passes a non-empty mapping, the dispatcher writes
  into the caller's own dict object: after the call that object holds the \<open>apikey\<close> and
  \<open>signature\<close> entries (added, or overwritten), it is the very mapping that was posted, its
  other entries are as they were, and no other dict object has changed.
\<close>

theorem private_call_mutates_the_callers_mapping:
  assumes "first_segment method \<in> set private_set"
    and "a < length (heap w)" and "heap w ! a \<noteq> []"
  shows "\<exists>url sig h.
      sent (snd (api_query L e method (Some a) w))
        = sent w @ [Post url (heap (snd (api_query L e method (Some a) w)) ! a) h 60]
    \<and> map_of (heap (snd (api_query L e method (Some a) w)) ! a) ''apikey''
        = Some (PStr (api_key (self w)))
    \<and> map_of (heap (snd (api_query L e method (Some a) w)) ! a) ''signature''
        = Some (PBytes sig)
    \<and> filter (\<lambda>p. fst p \<noteq> ''apikey'' \<and> fst p \<noteq> ''signature'')
          (heap (snd (api_query L e method (Some a) w)) ! a)
        = filter (\<lambda>p. fst p \<noteq> ''apikey'' \<and> fst p \<noteq> ''signature'') (heap w ! a)
    \<and> length (heap (snd (api_query L e method (Some a) w))) = length (heap w)
    \<and> (heap (snd (api_query L e method (Some a) w)))[a := heap w ! a] = heap w"
proof -
  have l: "live (Some a) w"
    using assms(2) by (simp add: live_def)
  show ?thesis
    using assms(2)
    by (simp add: api_query_private_heap [OF assms] api_query_private_result(2) [OF assms(1) l]
        private_post_def Let_def contents_def update_conv' filter_update_drop)
qed

theorem private_call_mutates_the_callers_mapping_witness:
  "\<forall>L hp.
     first_segment ''withdraw/BTC'' \<in> set private_set
   \<and> 0 < length (heap \<lparr>self = init (Some ''key'') (Some ''secret''),
        heap = [[(''currency'', PStr ''BTC''), (''apikey'', PStr ''mine'')]], sent = []\<rparr>)
   \<and> heap \<lparr>self = init (Some ''key'') (Some ''secret''),
        heap = [[(''currency'', PStr ''BTC''), (''apikey'', PStr ''mine'')]], sent = []\<rparr> ! 0 \<noteq> []
   \<and> heap (snd (api_query L \<lparr>time_time = 3000000001 / 2, http = hp\<rparr> ''withdraw/BTC'' (Some 0)
        \<lparr>self = init (Some ''key'') (Some ''secret''),
         heap = [[(''currency'', PStr ''BTC''), (''apikey'', PStr ''mine'')]], sent = []\<rparr>))
       = [[(''currency'', PStr ''BTC''), (''apikey'', PStr ''key''),
           (''signature'', PBytes (b64encode L (hmac_sha512 L ''secret''
              ''https://novaexchange.com/remote/v2/private/withdraw/BTC/?nonce=1500000000'')))]]
   \<and> map_of (heap (snd (api_query L \<lparr>time_time = 3000000001 / 2, http = hp\<rparr> ''withdraw/BTC''
        (Some 0)
        \<lparr>self = init (Some ''key'') (Some ''secret''),
         heap = [[(''currency'', PStr ''BTC''), (''apikey'', PStr ''mine'')]], sent = []\<rparr>)) ! 0)
        ''apikey'' = Some (PStr ''key'')
   \<and> filter (\<lambda>p. fst p \<noteq> ''apikey'' \<and> fst p \<noteq> ''signature'')
        (heap (snd (api_query L \<lparr>time_time = 3000000001 / 2, http = hp\<rparr> ''withdraw/BTC''
        (Some 0)
        \<lparr>self = init (Some ''key'') (Some ''secret''),
         heap = [[(''currency'', PStr ''BTC''), (''apikey'', PStr ''mine'')]], sent = []\<rparr>)) ! 0)
       = [(''currency'', PStr ''BTC'')]"
proof (intro allI)
  fix L :: stdlib and hp :: "http_request \<Rightarrow> exn + string"
  let ?w = "\<lparr>self = init (Some ''key'') (Some ''secret''),
        heap = [[(''currency'', PStr ''BTC''), (''apikey'', PStr ''mine'')]], sent = []\<rparr>"
  let ?e = "\<lparr>time_time = 3000000001 / 2, http = hp\<rparr>"
  let ?h = "heap (snd (api_query L ?e ''withdraw/BTC'' (Some 0) ?w))"
  have p: "first_segment ''withdraw/BTC'' \<in> set private_set"
    by (simp add: first_segment_def private_set_def)
  have a: "0 < length (heap ?w)"
    by simp
  have n: "heap ?w ! 0 \<noteq> []"
    by simp
  have f: "py_int_of_float (3000000001 / 2) = 1500000000"
    by (simp add: py_int_of_float_def floor_eq_iff)
  have s: "py_str_int 1500000000 = ''1500000000''"
    by (simp add: py_str_int_def str_nat_digit str_nat_step digit_char_def)
  have h: "?h = [[(''currency'', PStr ''BTC''), (''apikey'', PStr ''key''),
           (''signature'', PBytes (b64encode L (hmac_sha512 L ''secret''
              ''https://novaexchange.com/remote/v2/private/withdraw/BTC/?nonce=1500000000'')))]]"
    unfolding api_query_private_heap [OF p a n]
    by (simp add: init_def encode_utf8_def canonical_url_def f s)
  from private_call_mutates_the_callers_mapping [OF p a n, of L ?e]
  have "map_of (?h ! 0) ''apikey'' = Some (PStr (api_key (self ?w)))
    \<and> filter (\<lambda>p. fst p \<noteq> ''apikey'' \<and> fst p \<noteq> ''signature'') (?h ! 0)
        = filter (\<lambda>p. fst p \<noteq> ''apikey'' \<and> fst p \<noteq> ''signature'') (heap ?w ! 0)"
    by blast
  then have "map_of (?h ! 0) ''apikey'' = Some (PStr ''key'')
    \<and> filter (\<lambda>p. fst p \<noteq> ''apikey'' \<and> fst p \<noteq> ''signature'') (?h ! 0)
        = [(''currency'', PStr ''BTC'')]"
    by (simp add: init_def)
  with p a n h show "first_segment ''withdraw/BTC'' \<in> set private_set
   \<and> 0 < length (heap ?w)
   \<and> heap ?w ! 0 \<noteq> []
   \<and> ?h = [[(''currency'', PStr ''BTC''), (''apikey'', PStr ''key''),
           (''signature'', PBytes (b64encode L (hmac_sha512 L ''secret''
              ''https://novaexchange.com/remote/v2/private/withdraw/BTC/?nonce=1500000000'')))]]
   \<and> map_of (?h ! 0) ''apikey'' = Some (PStr ''key'')
   \<and> filter (\<lambda>p. fst p \<noteq> ''apikey'' \<and> fst p \<noteq> ''signature'') (?h ! 0)
       = [(''currency'', PStr ''BTC'')]"
    by blast
qed

text \<open>
  When the caller passes \<open>None\<close> or an empty mapping, \<open>req\<close> is bound to a new dict and the
  entries are written there: every dict object the caller holds is left as it was.
\<close>

lemma private_call_spares_an_empty_mapping:
  assumes "first_segment method \<in> set private_set"
    and "req = None \<or> (\<exists>a. req = Some a \<and> heap w ! a = [])"
  shows "take (length (heap w)) (heap (snd (api_query L e method req w))) = heap w"
proof -
  from assms(2) have d: "default_req req w = alloc [] w"
    by (auto simp add: default_req_def)
  show ?thesis
    by (simp add: api_query_private [OF assms(1)] Let_def request_def setitem_def d alloc_def)
qed

end
